theory Spec2Isabelle
  imports Main
begin

section \<open>SyncClient: connection lifecycle of \<^verbatim>\<open>src/sync_client.ts\<close>\<close>

text \<open>
  The class \<^verbatim>\<open>SyncClient\<close> keeps three mutable fields (\<^verbatim>\<open>options\<close>, \<^verbatim>\<open>urls\<close>,
  \<^verbatim>\<open>statusChangeListeners\<close>) and talks to three collaborators through promises and
  callbacks: the connectivity oracle (\<^verbatim>\<open>isOnline\<close>, \<^verbatim>\<open>onlineStatusChanged\<close>), the
  sync layer \<^verbatim>\<open>this.syncable\<close> (\<^verbatim>\<open>connect\<close>, \<^verbatim>\<open>disconnect\<close>, \<^verbatim>\<open>delete\<close>,
  \<^verbatim>\<open>getStatus\<close>, the \<^verbatim>\<open>statusChanged\<close> event) and the application (method calls,
  status listeners).

  JavaScript runs one callback at a time, so the class is modelled as a state machine:
  every method call and every callback the class registered is one atomic step on a
  record. What the collaborators do is not code of the class; it enters as events
  (a promise of the oracle or of the sync layer settles, the oracle reports a
  reachability change, the sync layer emits a status). Each promise the class obtains
  or hands out has a number; the table \<open>pending\<close> holds the unsettled ones together
  with the continuation the source attached to them.
\<close>

subsection \<open>Data\<close>

type_synonym url = string

text \<open>A listener is a JavaScript function; only its identity matters here.\<close>

type_synonym listener = nat

text \<open>
  The values of option fields are primitives; an option field that holds an object is
  outside this model.
\<close>

datatype jsval = Undefined | Null | Flag bool | Num int | Str string

text \<open>An options object: the names of its own properties and their values.\<close>

type_synonym sync_opts = "string \<rightharpoonup> jsval"

text \<open>
  Errors: \<^verbatim>\<open>new Error('Is not online')\<close> of line 104, whatever a collaborator rejects
  with, which the class never inspects, and the \<^verbatim>\<open>TypeError\<close> the language raises.
\<close>

datatype error = Is_not_online | Failure string | TypeError

text \<open>How a promise that somebody holds was settled.\<close>

datatype outcome = Resolved | ResolvedText "string option" | Rejected error

text \<open>
  The continuation attached to an unsettled promise.
  \<^item> \<open>AwaitIsOnline url\<close>: \<^verbatim>\<open>isOnline(url)\<close> of line 86, continued by lines 87 to 105.
  \<^item> \<open>AwaitConnect url chained\<close>: \<^verbatim>\<open>this.syncable.connect\<close> issued by \<^verbatim>\<open>_connect\<close>,
    with the \<^verbatim>\<open>catch\<close> of lines 69 to 72. \<open>chained\<close> is true when \<^verbatim>\<open>connect\<close>
    attached lines 90 to 102 and returns the result to its caller, false when the
    reachability callback of line 97 issued it and dropped the promise.
  \<^item> \<open>AwaitDisconnect url observed\<close>: \<^verbatim>\<open>this.syncable.disconnect(url)\<close>; \<open>observed\<close> is
    true when the promise was returned to the application (a call of \<^verbatim>\<open>disconnect\<close>),
    false when \<^verbatim>\<open>disconnect\<close> was called from line 70 or line 99, where the returned
    promise is discarded.
  \<^item> \<open>AwaitDelete url\<close>: \<^verbatim>\<open>this.syncable.delete(url)\<close>, returned by \<^verbatim>\<open>removeUrl\<close>.
  \<^item> \<open>AwaitGetStatus url\<close>: \<^verbatim>\<open>this.syncable.getStatus(url)\<close>, continued by line 146.
\<close>

datatype wait =
    AwaitIsOnline url
  | AwaitConnect url bool
  | AwaitDisconnect url bool
  | AwaitDelete url
  | AwaitGetStatus url

text \<open>Calls the class makes on the oracle and on the sync layer, in the order made.\<close>

datatype call =
    IsOnline url
  | SyncConnect url "sync_opts option"
  | SyncDisconnect url
  | SyncDelete url
  | SyncGetStatus url

text \<open>
  What line 57 calls with the status text: a listener the application registered; a
  built-in function of \<^verbatim>\<open>Object.prototype\<close>, found under the given name; or whatever a
  read of the given name on a listener function yields, when that function has become
  the prototype of the listener table (see \<open>set_listener\<close>).
\<close>

datatype callee = Registered listener | Builtin string | Through listener string

text \<open>
  \<^verbatim>\<open>options\<close> and \<^verbatim>\<open>statusChangeListeners\<close> are plain objects (lines 50 and 52), keyed by
  url. Of the listener table the model keeps the own properties: \<open>None\<close> is no own
  property, \<open>Some None\<close> an own property that holds \<^verbatim>\<open>undefined\<close> (line 117),
  \<open>Some (Some cb)\<close> one that holds the function \<open>cb\<close>. \<^verbatim>\<open>options[url]\<close> is only read
  (lines 89 and 97) after line 84 has written it for the same url, so a map of what was
  written last is enough there.
\<close>

record state =
  options :: "url \<rightharpoonup> sync_opts"
  urls :: "url list"
  statusChangeListeners :: "url \<rightharpoonup> listener option"
  subscriptions :: "url list"
  pending :: "(nat \<times> wait) list"
  next_promise :: nat
  calls :: "call list"
  notified :: "(callee \<times> string option) list"
  raised :: "error list"
  results :: "(nat \<times> outcome) list"
  unhandled :: "error list"

text \<open>
  \<open>subscriptions\<close> lists the callbacks passed to \<^verbatim>\<open>onlineStatusChanged\<close> (line 95), in
  the order registered; each closes over its \<^verbatim>\<open>url\<close>, and the source never unregisters
  one. \<open>notified\<close> lists what the status handler called, \<open>raised\<close> the exceptions that
  left the status handler, \<open>results\<close> the settlements of promises held by the
  application, \<open>unhandled\<close> the rejections of promises nobody holds.
\<close>

text \<open>The constructor, lines 50 to 52.\<close>

definition init :: state where
  "init = \<lparr> options = Map.empty, urls = [], statusChangeListeners = Map.empty,
            subscriptions = [], pending = [], next_promise = 0, calls = [],
            notified = [], raised = [], results = [], unhandled = [] \<rparr>"

subsection \<open>Promise bookkeeping\<close>

definition fresh :: "wait \<Rightarrow> state \<Rightarrow> state" where
  "fresh w s = s\<lparr> pending := (next_promise s, w) # pending s,
                  next_promise := Suc (next_promise s) \<rparr>"

definition forget :: "nat \<Rightarrow> state \<Rightarrow> state" where
  "forget p s = s\<lparr> pending := filter (\<lambda>qw. fst qw \<noteq> p) (pending s) \<rparr>"

definition continue_with :: "nat \<Rightarrow> wait \<Rightarrow> state \<Rightarrow> state" where
  "continue_with p w s = s\<lparr> pending := (p, w) # filter (\<lambda>qw. fst qw \<noteq> p) (pending s) \<rparr>"

definition call_out :: "call \<Rightarrow> state \<Rightarrow> state" where
  "call_out c s = s\<lparr> calls := calls s @ [c] \<rparr>"

definition deliver :: "nat \<Rightarrow> outcome \<Rightarrow> state \<Rightarrow> state" where
  "deliver p r s = s\<lparr> results := results s @ [(p, r)] \<rparr>"

definition drop_rejection :: "error \<Rightarrow> state \<Rightarrow> state" where
  "drop_rejection e s = s\<lparr> unhandled := unhandled s @ [e] \<rparr>"

subsection \<open>The methods\<close>

text \<open>Lines 14 to 17.\<close>

definition defaultSyncOptions :: sync_opts where
  "defaultSyncOptions = [''pollInterval'' \<mapsto> Num 10000, ''credentials'' \<mapsto> Str ''omit'']"

text \<open>
  \<^verbatim>\<open>Object.assign({}, options, defaultSyncOptions)\<close> of line 84: the own properties of
  the sources are assigned to the new object left to right, a later source overwrites,
  an undefined source is skipped. The assignment of a property named \<^verbatim>\<open>__proto__\<close> goes
  to the setter the new object inherits from \<^verbatim>\<open>Object.prototype\<close>, which creates no own
  property: a primitive value other than \<^verbatim>\<open>null\<close> is dropped, \<^verbatim>\<open>null\<close> removes the
  prototype of the new object.
\<close>

definition assign_options :: "sync_opts option \<Rightarrow> sync_opts" where
  "assign_options opts =
     (case opts of None \<Rightarrow> Map.empty | Some given \<Rightarrow> given(''__proto__'' := None))
       ++ defaultSyncOptions"

text \<open>
  \<^verbatim>\<open>disconnect(url)\<close>, lines 110 to 113. \<open>observed\<close> says whether the caller keeps the
  returned promise.
\<close>

definition disconnect :: "url \<Rightarrow> bool \<Rightarrow> state \<Rightarrow> state" where
  "disconnect url observed s =
     fresh (AwaitDisconnect url observed)
       (call_out (SyncDisconnect url) (s\<lparr> urls := filter (\<lambda>u. u \<noteq> url) (urls s) \<rparr>))"

text \<open>
  The assignment \<^verbatim>\<open>this.statusChangeListeners[url] = v\<close> of lines 117 and 122, where \<open>v\<close>
  is a function or \<^verbatim>\<open>undefined\<close>. It creates or overwrites an own property, except for
  the key \<^verbatim>\<open>__proto__\<close>, which the setter inherited from \<^verbatim>\<open>Object.prototype\<close> takes: a
  function becomes the prototype of the table, where a read of \<^verbatim>\<open>__proto__\<close> finds it
  again (the model records it under that key), and \<^verbatim>\<open>undefined\<close> is ignored.
\<close>

definition set_listener ::
  "url \<Rightarrow> listener option \<Rightarrow> (url \<rightharpoonup> listener option) \<Rightarrow> (url \<rightharpoonup> listener option)" where
  "set_listener url v table =
     (if url = ''__proto__'' \<and> v = None then table else table(url \<mapsto> v))"

text \<open>\<^verbatim>\<open>removeUrl(url)\<close>, lines 115 to 119.\<close>

definition removeUrl :: "url \<Rightarrow> state \<Rightarrow> state" where
  "removeUrl url s =
     fresh (AwaitDelete url)
       (call_out (SyncDelete url)
          (s\<lparr> urls := filter (\<lambda>u. u \<noteq> url) (urls s),
              statusChangeListeners := set_listener url None (statusChangeListeners s) \<rparr>))"

text \<open>
  \<^verbatim>\<open>statusChange(url, cb)\<close>, lines 121 to 123; \<open>cb\<close> is a function, or \<open>None\<close> for
  \<^verbatim>\<open>undefined\<close>.
\<close>

definition statusChange :: "url \<Rightarrow> listener option \<Rightarrow> state \<Rightarrow> state" where
  "statusChange url cb s =
     s\<lparr> statusChangeListeners := set_listener url cb (statusChangeListeners s) \<rparr>"

text \<open>
  \<^verbatim>\<open>_connect(url, options)\<close>, lines 66 to 73: the call of line 68. The promise it
  returns is registered by the caller of \<open>connect_internal\<close>, which knows what is
  chained behind it.
\<close>

definition connect_internal :: "url \<Rightarrow> sync_opts option \<Rightarrow> state \<Rightarrow> state" where
  "connect_internal url opts s = call_out (SyncConnect url opts) s"

text \<open>
  The \<^verbatim>\<open>catch\<close> callback of \<^verbatim>\<open>_connect\<close>, lines 69 to 72: \<^verbatim>\<open>this.disconnect(url)\<close>, whose
  promise is discarded, then the error is thrown again (by the step below).
\<close>

definition connect_internal_catch :: "url \<Rightarrow> state \<Rightarrow> state" where
  "connect_internal_catch url s = disconnect url False s"

text \<open>
  \<^verbatim>\<open>connect(url, options?)\<close>, lines 79 to 108, up to the first asynchronous step:
  line 84 and the oracle query of line 86 when the url is not in \<^verbatim>\<open>urls\<close>, the resolved
  promise of line 107 otherwise.
\<close>

definition connect :: "url \<Rightarrow> sync_opts option \<Rightarrow> state \<Rightarrow> state" where
  "connect url opts s =
     (if url \<notin> set (urls s)
      then fresh (AwaitIsOnline url)
             (call_out (IsOnline url)
                (s\<lparr> options := (options s)(url \<mapsto> assign_options opts) \<rparr>))
      else deliver (next_promise s) Resolved (s\<lparr> next_promise := Suc (next_promise s) \<rparr>))"

text \<open>\<^verbatim>\<open>getStatus(url)\<close>, lines 142 to 144: the query; line 146 is the continuation.\<close>

definition getStatus :: "url \<Rightarrow> state \<Rightarrow> state" where
  "getStatus url s = fresh (AwaitGetStatus url) (call_out (SyncGetStatus url) s)"

subsection \<open>The callbacks\<close>

text \<open>
  The callback of lines 87 to 105, run when \<^verbatim>\<open>isOnline(url)\<close> resolves with \<open>status\<close>.
  Promise \<open>p\<close> is the one \<^verbatim>\<open>connect\<close> returned.
\<close>

definition isOnline_then :: "nat \<Rightarrow> url \<Rightarrow> bool \<Rightarrow> state \<Rightarrow> state" where
  "isOnline_then p url status s =
     (if status
      then continue_with p (AwaitConnect url True) (connect_internal url (options s url) s)
      else deliver p (Rejected Is_not_online) (forget p s))"

text \<open>The callback of lines 90 to 102, run when the chained \<^verbatim>\<open>_connect\<close> resolves.\<close>

definition connect_then :: "url \<Rightarrow> state \<Rightarrow> state" where
  "connect_then url s = s\<lparr> urls := urls s @ [url], subscriptions := subscriptions s @ [url] \<rparr>"

text \<open>The callback of lines 95 to 101, registered with the oracle for \<open>url\<close>.\<close>

definition onlineStatusChanged_callback :: "url \<Rightarrow> bool \<Rightarrow> state \<Rightarrow> state" where
  "onlineStatusChanged_callback url newStatus s =
     (if newStatus
      then fresh (AwaitConnect url False) (connect_internal url (options s url) s)
      else disconnect url False s)"

text \<open>
  What lines 55 to 57 meet for a key that is inherited from \<^verbatim>\<open>Object.prototype\<close>: no
  such property; a built-in whose call with the status text returns; or a \<^verbatim>\<open>TypeError\<close>.
  The call of line 57 passes no receiver. \<^verbatim>\<open>Object\<close> (under \<^verbatim>\<open>constructor\<close>),
  \<^verbatim>\<open>toString\<close> and \<^verbatim>\<open>isPrototypeOf\<close> (whose argument is not an object) return; the
  built-ins that first convert their receiver to an object throw; \<^verbatim>\<open>__proto__\<close> reads
  as the prototype object, which is not a function.
\<close>

datatype chain_value = Chain_absent | Chain_returns | Chain_throws

definition Object_prototype :: "string \<Rightarrow> chain_value" where
  "Object_prototype key =
     (if key \<in> set [''constructor'', ''toString'', ''isPrototypeOf''] then Chain_returns
      else if key \<in> set [''hasOwnProperty'', ''propertyIsEnumerable'', ''valueOf'',
                          ''toLocaleString'', ''__defineGetter__'', ''__defineSetter__'',
                          ''__lookupGetter__'', ''__lookupSetter__'', ''__proto__'']
      then Chain_throws
      else Chain_absent)"

text \<open>
  The \<^verbatim>\<open>statusChanged\<close> handler of lines 54 to 59. \<open>StatusTexts\<close> is the table
  \<^verbatim>\<open>Dexie.Syncable.StatusTexts\<close> of the sync library, a parameter here; a status the
  table does not hold translates to \<^verbatim>\<open>undefined\<close>, here \<open>None\<close>.

  Line 55 reads the table through its prototype chain. An own property wins: a
  function is called, \<^verbatim>\<open>undefined\<close> is not. Without an own property the read goes to
  the prototype: the function that \<open>set_listener\<close> put there, if any (what the read
  finds on it depends on that function; the model records the read), and
  \<^verbatim>\<open>Object.prototype\<close> otherwise. An exception leaves the handler.
\<close>

definition statusChanged_handler ::
  "(int \<Rightarrow> string option) \<Rightarrow> int \<Rightarrow> url \<Rightarrow> state \<Rightarrow> state" where
  "statusChanged_handler StatusTexts status url s =
     (case statusChangeListeners s url of
        Some (Some cb) \<Rightarrow> s\<lparr> notified := notified s @ [(Registered cb, StatusTexts status)] \<rparr>
      | Some None \<Rightarrow> s
      | None \<Rightarrow>
          (case statusChangeListeners s ''__proto__'' of
             Some (Some proto) \<Rightarrow>
               s\<lparr> notified := notified s @ [(Through proto url, StatusTexts status)] \<rparr>
           | _ \<Rightarrow>
               (case Object_prototype url of
                  Chain_absent \<Rightarrow> s
                | Chain_returns \<Rightarrow>
                    s\<lparr> notified := notified s @ [(Builtin url, StatusTexts status)] \<rparr>
                | Chain_throws \<Rightarrow> s\<lparr> raised := raised s @ [TypeError] \<rparr>)))"

subsection \<open>Events and steps\<close>

datatype event =
    Connect url "sync_opts option"
  | Disconnect url
  | RemoveUrl url
  | StatusChange url "listener option"
  | GetStatus url
  | IsOnlineSettled nat "error + bool"
  | SyncConnectSettled nat "error option"
  | SyncDisconnectSettled nat "error option"
  | SyncDeleteSettled nat "error option"
  | SyncGetStatusSettled nat "error + int"
  | OnlineStatusChanged nat bool
  | StatusChanged int url

text \<open>
  The first five events are calls by the application. The \<open>Settled\<close> events carry the
  number of the promise and how the collaborator settled it (\<open>None\<close>: resolved,
  \<open>Some e\<close> or \<open>Inl e\<close>: rejected with \<open>e\<close>); a number that is not pending with that kind
  of continuation changes nothing. \<open>OnlineStatusChanged k b\<close> is the oracle invoking
  the \<open>k\<close>-th registered callback with \<open>b\<close>; \<open>StatusChanged status url\<close> is the sync layer
  emitting its event.
\<close>

definition void_outcome :: "error option \<Rightarrow> outcome" where
  "void_outcome r = (case r of None \<Rightarrow> Resolved | Some e \<Rightarrow> Rejected e)"

fun step :: "(int \<Rightarrow> string option) \<Rightarrow> state \<Rightarrow> event \<Rightarrow> state" where
  "step T s (Connect url opts) = connect url opts s"
| "step T s (Disconnect url) = disconnect url True s"
| "step T s (RemoveUrl url) = removeUrl url s"
| "step T s (StatusChange url cb) = statusChange url cb s"
| "step T s (GetStatus url) = getStatus url s"
| "step T s (IsOnlineSettled p r) =
     (case map_of (pending s) p of
        Some (AwaitIsOnline url) \<Rightarrow>
          (case r of
             Inr status \<Rightarrow> isOnline_then p url status s
           | Inl e \<Rightarrow> deliver p (Rejected e) (forget p s))
      | _ \<Rightarrow> s)"
| "step T s (SyncConnectSettled p r) =
     (case map_of (pending s) p of
        Some (AwaitConnect url chained) \<Rightarrow>
          (case r of
             None \<Rightarrow>
               (if chained then deliver p Resolved (connect_then url (forget p s))
                else forget p s)
           | Some e \<Rightarrow>
               (if chained then deliver p (Rejected e) (connect_internal_catch url (forget p s))
                else drop_rejection e (connect_internal_catch url (forget p s))))
      | _ \<Rightarrow> s)"
| "step T s (SyncDisconnectSettled p r) =
     (case map_of (pending s) p of
        Some (AwaitDisconnect url observed) \<Rightarrow>
          (if observed then deliver p (void_outcome r) (forget p s)
           else (case r of None \<Rightarrow> forget p s | Some e \<Rightarrow> drop_rejection e (forget p s)))
      | _ \<Rightarrow> s)"
| "step T s (SyncDeleteSettled p r) =
     (case map_of (pending s) p of
        Some (AwaitDelete url) \<Rightarrow> deliver p (void_outcome r) (forget p s)
      | _ \<Rightarrow> s)"
| "step T s (SyncGetStatusSettled p r) =
     (case map_of (pending s) p of
        Some (AwaitGetStatus url) \<Rightarrow>
          (case r of
             Inr status \<Rightarrow> deliver p (ResolvedText (T status)) (forget p s)
           | Inl e \<Rightarrow> deliver p (Rejected e) (forget p s))
      | _ \<Rightarrow> s)"
| "step T s (OnlineStatusChanged k newStatus) =
     (if k < length (subscriptions s)
      then onlineStatusChanged_callback (subscriptions s ! k) newStatus s
      else s)"
| "step T s (StatusChanged status url) = statusChanged_handler T status url s"

definition run :: "(int \<Rightarrow> string option) \<Rightarrow> state \<Rightarrow> event list \<Rightarrow> state" where
  "run T s evs = foldl (step T) s evs"

subsection \<open>Measures on states and traces\<close>

text \<open>The sync-layer connects of \<open>url\<close> that are issued and not yet settled.\<close>

definition inflight_connects :: "state \<Rightarrow> url \<Rightarrow> (nat \<times> wait) list" where
  "inflight_connects s url =
     filter (\<lambda>qw. snd qw = AwaitConnect url True \<or> snd qw = AwaitConnect url False) (pending s)"



subsection \<open>Concrete inputs\<close>

text \<open>
  The status table as the sync library publishes it. It is used for concrete traces
  only; every general statement below holds for any table \<open>T\<close>.
\<close>

definition dexie_StatusTexts :: "int \<Rightarrow> string option" where
  "dexie_StatusTexts status =
     (if status = - 1 then Some ''ERROR''
      else if status = 0 then Some ''OFFLINE''
      else if status = 1 then Some ''CONNECTING''
      else if status = 2 then Some ''ONLINE''
      else if status = 3 then Some ''SYNCING''
      else if status = 4 then Some ''ERROR_WILL_RETRY''
      else None)"

abbreviation db1 :: url where
  "db1 \<equiv> ''https://sync.example/db1''"

text \<open>A connect of \<open>db1\<close> that waits for the sync layer, and one that has completed.\<close>

definition connecting_example :: state where
  "connecting_example =
     run dexie_StatusTexts init [Connect db1 None, IsOnlineSettled 0 (Inr True)]"

definition tracked_example :: state where
  "tracked_example =
     run dexie_StatusTexts init
       [Connect db1 None, IsOnlineSettled 0 (Inr True), SyncConnectSettled 0 None]"

text \<open>
  A client whose only action so far was \<^verbatim>\<open>statusChange(db1, cb)\<close> with listener 7, and
  one that then called \<^verbatim>\<open>removeUrl(db1)\<close>.
\<close>

definition listening_example :: state where
  "listening_example = run dexie_StatusTexts init [StatusChange db1 (Some 7)]"

definition removed_example :: state where
  "removed_example = run dexie_StatusTexts init [StatusChange db1 (Some 7), RemoveUrl db1]"

section \<open>Properties\<close>

lemmas sync_defs =
  connect_def disconnect_def removeUrl_def statusChange_def set_listener_def getStatus_def
  connect_internal_def connect_internal_catch_def isOnline_then_def connect_then_def
  onlineStatusChanged_callback_def statusChanged_handler_def
  fresh_def forget_def continue_with_def call_out_def deliver_def drop_rejection_def
  void_outcome_def

lemmas example_defs =
  connecting_example_def tracked_example_def listening_example_def removed_example_def
  run_def init_def

lemma map_of_forgotten: "map_of (filter (\<lambda>qw. fst qw \<noteq> p) xs) p = None"
  by (induction xs) auto

subsection \<open>Options: the defaults are applied last\<close>

text \<open>
  Claim C3, as stated: on a first \<^verbatim>\<open>connect(url, options)\<close> the stored options are the
  caller's fields overlaid by the defaults, and every caller-supplied field other than
  \<^verbatim>\<open>pollInterval\<close> and \<^verbatim>\<open>credentials\<close> is preserved. The last part fails for one field
  name. A caller's own field \<^verbatim>\<open>__proto__\<close> (as \<^verbatim>\<open>JSON.parse('{"__proto__": 5}')\<close>
  produces it) is not copied by \<^verbatim>\<open>Object.assign\<close>: the stored options have no such
  field, while the field \<^verbatim>\<open>batchSize\<close> beside it is kept.
\<close>

theorem connect_drops_proto_field:
  "options (step dexie_StatusTexts init
      (Connect db1 (Some [''__proto__'' \<mapsto> Num 5, ''batchSize'' \<mapsto> Num 7]))) db1
     = Some (assign_options (Some [''__proto__'' \<mapsto> Num 5, ''batchSize'' \<mapsto> Num 7]))
   \<and> assign_options (Some [''__proto__'' \<mapsto> Num 5, ''batchSize'' \<mapsto> Num 7]) ''__proto__''
       = None
   \<and> assign_options (Some [''__proto__'' \<mapsto> Num 5, ''batchSize'' \<mapsto> Num 7]) ''__proto__''
       \<noteq> [''__proto__'' \<mapsto> Num 5, ''batchSize'' \<mapsto> Num 7] ''__proto__''
   \<and> assign_options (Some [''__proto__'' \<mapsto> Num 5, ''batchSize'' \<mapsto> Num 7]) ''batchSize''
       = Some (Num 7)"
  by (simp add: sync_defs init_def assign_options_def defaultSyncOptions_def map_add_def)

text \<open>
  Claim C3, amended. For a \<^verbatim>\<open>connect(url, options)\<close> call that finds \<open>url\<close> outside the
  tracked list, and for every options object the caller supplies (or none), the
  options stored for \<open>url\<close> are the caller's own fields overlaid by the defaults:
  \<^verbatim>\<open>pollInterval\<close> is 10000 and \<^verbatim>\<open>credentials\<close> is \<^verbatim>\<open>'omit'\<close> whatever the caller gave
  for these two keys; a caller's field named \<^verbatim>\<open>__proto__\<close> is never stored as a field;
  every other field holds what the caller gave.
\<close>

theorem connect_applies_defaults_last:
  assumes "url \<notin> set (urls s)"
  shows "options (step T s (Connect url opts)) url = Some (assign_options opts)
       \<and> assign_options opts ''pollInterval'' = Some (Num 10000)
       \<and> assign_options opts ''credentials'' = Some (Str ''omit'')
       \<and> assign_options opts ''__proto__'' = None
       \<and> (\<forall>k. k \<noteq> ''pollInterval'' \<longrightarrow> k \<noteq> ''credentials'' \<longrightarrow> k \<noteq> ''__proto__'' \<longrightarrow>
            assign_options opts k = (case opts of None \<Rightarrow> None | Some given \<Rightarrow> given k))"
  using assms
  by (auto simp: sync_defs assign_options_def defaultSyncOptions_def map_add_def
           split: option.splits)

theorem connect_applies_defaults_last_witness:
  "db1 \<notin> set (urls init)
   \<and> options (step dexie_StatusTexts init
        (Connect db1 (Some [''pollInterval'' \<mapsto> Num 500, ''credentials'' \<mapsto> Str ''include'',
                            ''batchSize'' \<mapsto> Num 7]))) db1
       = Some (assign_options (Some [''pollInterval'' \<mapsto> Num 500,
                 ''credentials'' \<mapsto> Str ''include'', ''batchSize'' \<mapsto> Num 7]))
   \<and> assign_options (Some [''pollInterval'' \<mapsto> Num 500, ''credentials'' \<mapsto> Str ''include'',
                            ''batchSize'' \<mapsto> Num 7]) ''pollInterval'' = Some (Num 10000)
   \<and> assign_options (Some [''pollInterval'' \<mapsto> Num 500, ''credentials'' \<mapsto> Str ''include'',
                            ''batchSize'' \<mapsto> Num 7]) ''credentials'' = Some (Str ''omit'')
   \<and> assign_options (Some [''pollInterval'' \<mapsto> Num 500, ''credentials'' \<mapsto> Str ''include'',
                            ''batchSize'' \<mapsto> Num 7]) ''batchSize'' = Some (Num 7)"
  using connect_applies_defaults_last [of db1 init dexie_StatusTexts
          "Some [''pollInterval'' \<mapsto> Num 500, ''credentials'' \<mapsto> Str ''include'',
                 ''batchSize'' \<mapsto> Num 7]"]
  by (simp add: init_def)

subsection \<open>Connect of a tracked endpoint\<close>

text \<open>
  Claim C9. For an endpoint already in the tracked list, \<^verbatim>\<open>connect(url, options)\<close>
  returns a resolved promise and changes nothing else: the tracked list, the stored
  options of every endpoint (also of \<open>url\<close>, whatever options were passed), the listener
  map, the subscriptions and the pending promises are as before, and no call goes to
  the oracle or to the sync layer.
\<close>

theorem connect_tracked_is_noop:
  assumes "url \<in> set (urls s)"
  shows "let s' = step T s (Connect url opts) in
           urls s' = urls s
         \<and> options s' = options s
         \<and> statusChangeListeners s' = statusChangeListeners s
         \<and> subscriptions s' = subscriptions s
         \<and> pending s' = pending s
         \<and> calls s' = calls s
         \<and> notified s' = notified s
         \<and> raised s' = raised s
         \<and> unhandled s' = unhandled s
         \<and> results s' = results s @ [(next_promise s, Resolved)]"
  using assms by (simp add: sync_defs)

theorem connect_tracked_is_noop_witness:
  "db1 \<in> set (urls tracked_example)
   \<and> urls (step dexie_StatusTexts tracked_example
        (Connect db1 (Some [''pollInterval'' \<mapsto> Num 5]))) = [db1]
   \<and> calls (step dexie_StatusTexts tracked_example
        (Connect db1 (Some [''pollInterval'' \<mapsto> Num 5]))) = calls tracked_example
   \<and> options (step dexie_StatusTexts tracked_example
        (Connect db1 (Some [''pollInterval'' \<mapsto> Num 5]))) = options tracked_example
   \<and> results (step dexie_StatusTexts tracked_example
        (Connect db1 (Some [''pollInterval'' \<mapsto> Num 5])))
       = [(0, Resolved), (1, Resolved)]"
  using connect_tracked_is_noop [of db1 tracked_example dexie_StatusTexts
          "Some [''pollInterval'' \<mapsto> Num 5]"]
  by (simp add: example_defs sync_defs Let_def)

subsection \<open>Connect while the oracle reports the endpoint unreachable\<close>

text \<open>
  Claim C4. For an endpoint outside the tracked list: when the oracle answers the query
  of \<^verbatim>\<open>connect(url)\<close> with unreachable, the promise of the call is rejected with the
  error \<^verbatim>\<open>Is not online\<close>, the tracked list is as before and does not hold \<open>url\<close>, the
  only call made is the oracle query (no sync-layer connect), no reachability
  subscription is added, and nothing stays pending for the call, so nothing retries.
\<close>

theorem connect_unreachable_rejects:
  assumes "url \<notin> set (urls s)"
  shows "let p = next_promise s;
             s1 = step T s (Connect url opts);
             s2 = step T s1 (IsOnlineSettled p (Inr False))
         in map_of (pending s1) p = Some (AwaitIsOnline url)
          \<and> results s2 = results s @ [(p, Rejected Is_not_online)]
          \<and> urls s2 = urls s
          \<and> url \<notin> set (urls s2)
          \<and> calls s2 = calls s @ [IsOnline url]
          \<and> subscriptions s2 = subscriptions s
          \<and> map_of (pending s2) p = None"
  using assms by (simp add: sync_defs Let_def map_of_forgotten)

theorem connect_unreachable_rejects_witness:
  "db1 \<notin> set (urls init)
   \<and> results (run dexie_StatusTexts init [Connect db1 None, IsOnlineSettled 0 (Inr False)])
       = [(0, Rejected Is_not_online)]
   \<and> urls (run dexie_StatusTexts init [Connect db1 None, IsOnlineSettled 0 (Inr False)]) = []
   \<and> subscriptions (run dexie_StatusTexts init [Connect db1 None, IsOnlineSettled 0 (Inr False)])
       = []
   \<and> calls (run dexie_StatusTexts init [Connect db1 None, IsOnlineSettled 0 (Inr False)])
       = [IsOnline db1]"
  using connect_unreachable_rejects [of db1 init dexie_StatusTexts None]
  by (simp add: example_defs sync_defs Let_def)

subsection \<open>A sync-layer connect that fails\<close>

text \<open>
  Claim C5, as stated: when the sync-layer connect for an endpoint fails, the endpoint
  is not added to the tracked list and the system is, for tracking, as if the attempt
  had never happened. The second part fails when the endpoint is in the tracked list
  at the time of the failure: the \<^verbatim>\<open>catch\<close> of lines 69 to 72 calls \<^verbatim>\<open>disconnect\<close>, which
  removes it. First trace: \<open>db1\<close> is tracked, the oracle reports reachable, the
  reconnect it starts (promise 1) fails. Second trace: two overlapping \<^verbatim>\<open>connect\<close>
  calls, the first completes, the second fails. Both end with an empty list.
\<close>

theorem failed_attempt_untracks_tracked_endpoint:
  "urls tracked_example = [db1]
   \<and> map_of (pending (step dexie_StatusTexts tracked_example (OnlineStatusChanged 0 True))) 1
       = Some (AwaitConnect db1 False)
   \<and> urls (run dexie_StatusTexts tracked_example
        [OnlineStatusChanged 0 True, SyncConnectSettled 1 (Some (Failure ''refused''))]) = []
   \<and> urls (run dexie_StatusTexts init
        [Connect db1 None, Connect db1 None, IsOnlineSettled 0 (Inr True),
         IsOnlineSettled 1 (Inr True), SyncConnectSettled 0 None]) = [db1]
   \<and> urls (run dexie_StatusTexts init
        [Connect db1 None, Connect db1 None, IsOnlineSettled 0 (Inr True),
         IsOnlineSettled 1 (Inr True), SyncConnectSettled 0 None,
         SyncConnectSettled 1 (Some (Failure ''refused''))]) = []"
  by (simp add: example_defs sync_defs)

text \<open>
  Claim C5, amended. When the sync-layer connect issued for \<open>url\<close> is rejected with \<open>e\<close>:
  \<open>url\<close> is not in the tracked list afterwards; the list is unchanged if \<open>url\<close> was not
  in it, and loses every entry of \<open>url\<close> if it was (an overlapping \<^verbatim>\<open>connect\<close> had
  completed, or a tracked endpoint was being reconnected); no subscription is added;
  one cleanup \<^verbatim>\<open>disconnect(url)\<close> goes to the sync layer; the caller of \<^verbatim>\<open>connect\<close>
  receives the rejection \<open>e\<close> itself; and however the cleanup disconnect settles, no
  further result reaches a caller.
\<close>

theorem failed_connect_cleans_up:
  assumes "map_of (pending s) p = Some (AwaitConnect url chained)"
  shows "let s' = step T s (SyncConnectSettled p (Some e)); d = next_promise s in
           url \<notin> set (urls s')
         \<and> urls s' = filter (\<lambda>u. u \<noteq> url) (urls s)
         \<and> (url \<notin> set (urls s) \<longrightarrow> urls s' = urls s)
         \<and> (url \<in> set (urls s) \<longrightarrow> urls s' \<noteq> urls s)
         \<and> subscriptions s' = subscriptions s
         \<and> calls s' = calls s @ [SyncDisconnect url]
         \<and> (chained \<longrightarrow> results s' = results s @ [(p, Rejected e)])
         \<and> map_of (pending s') d = Some (AwaitDisconnect url False)
         \<and> results (step T s' (SyncDisconnectSettled d r)) = results s'"
  using assms by (auto simp: sync_defs Let_def filter_id_conv split: option.splits)

theorem failed_connect_cleans_up_witness:
  "map_of (pending connecting_example) 0 = Some (AwaitConnect db1 True)
   \<and> db1 \<notin> set (urls connecting_example)
   \<and> urls (step dexie_StatusTexts connecting_example
        (SyncConnectSettled 0 (Some (Failure ''refused'')))) = urls connecting_example
   \<and> calls (step dexie_StatusTexts connecting_example
        (SyncConnectSettled 0 (Some (Failure ''refused''))))
       = calls connecting_example @ [SyncDisconnect db1]
   \<and> results (step dexie_StatusTexts connecting_example
        (SyncConnectSettled 0 (Some (Failure ''refused''))))
       = [(0, Rejected (Failure ''refused''))]
   \<and> results (step dexie_StatusTexts
        (step dexie_StatusTexts connecting_example
           (SyncConnectSettled 0 (Some (Failure ''refused''))))
        (SyncDisconnectSettled 1 (Some (Failure ''cleanup failed''))))
       = [(0, Rejected (Failure ''refused''))]
   \<and> map_of (pending (step dexie_StatusTexts tracked_example (OnlineStatusChanged 0 True))) 1
       = Some (AwaitConnect db1 False)
   \<and> db1 \<in> set (urls (step dexie_StatusTexts tracked_example (OnlineStatusChanged 0 True)))
   \<and> urls (step dexie_StatusTexts
        (step dexie_StatusTexts tracked_example (OnlineStatusChanged 0 True))
        (SyncConnectSettled 1 (Some (Failure ''refused''))))
       \<noteq> urls (step dexie_StatusTexts tracked_example (OnlineStatusChanged 0 True))"
  using failed_connect_cleans_up [of connecting_example 0 db1 True
          dexie_StatusTexts "Failure ''refused''" "Some (Failure ''cleanup failed'')"]
        failed_connect_cleans_up
          [of "step dexie_StatusTexts tracked_example (OnlineStatusChanged 0 True)" 1 db1 False
              dexie_StatusTexts "Failure ''refused''" None]
  by (simp add: example_defs sync_defs Let_def)

subsection \<open>A reconnect started by the oracle that fails\<close>

text \<open>
  Claim C10. When the callback of a reachability subscription for \<open>url\<close> is invoked with
  reachable, it issues a sync-layer connect whose promise nobody holds. When that
  connect is rejected with \<open>e\<close>, the cleanup \<^verbatim>\<open>disconnect(url)\<close> is issued, no caller
  receives any result, and \<open>e\<close> ends as an unobserved rejection.
\<close>

theorem reconnect_failure_unobserved:
  assumes "k < length (subscriptions s)" and "subscriptions s ! k = url"
  shows "let p = next_promise s;
             s1 = step T s (OnlineStatusChanged k True);
             s2 = step T s1 (SyncConnectSettled p (Some e))
         in map_of (pending s1) p = Some (AwaitConnect url False)
          \<and> calls s1 = calls s @ [SyncConnect url (options s url)]
          \<and> results s1 = results s
          \<and> results s2 = results s
          \<and> unhandled s2 = unhandled s @ [e]
          \<and> calls s2 = calls s @ [SyncConnect url (options s url), SyncDisconnect url]
          \<and> url \<notin> set (urls s2)"
  using assms by (simp add: sync_defs Let_def)

theorem reconnect_failure_unobserved_witness:
  "0 < length (subscriptions tracked_example)
   \<and> subscriptions tracked_example ! 0 = db1
   \<and> results (run dexie_StatusTexts tracked_example
        [OnlineStatusChanged 0 True, SyncConnectSettled 1 (Some (Failure ''refused''))])
       = results tracked_example
   \<and> unhandled (run dexie_StatusTexts tracked_example
        [OnlineStatusChanged 0 True, SyncConnectSettled 1 (Some (Failure ''refused''))])
       = [Failure ''refused'']
   \<and> urls (run dexie_StatusTexts tracked_example
        [OnlineStatusChanged 0 True, SyncConnectSettled 1 (Some (Failure ''refused''))]) = []"
  using reconnect_failure_unobserved [of 0 tracked_example db1
          dexie_StatusTexts "Failure ''refused''"]
  by (simp add: example_defs sync_defs Let_def)

subsection \<open>Overlapping connect calls\<close>




subsection \<open>Status of an endpoint that was never connected\<close>

text \<open>
  Claim C8, as stated: for an endpoint that was never connected, and for any endpoint
  after \<^verbatim>\<open>removeUrl\<close>, \<^verbatim>\<open>getStatus\<close> is rejected with an unknown-endpoint error and never
  resolves with a status string. The class has no such check: \<^verbatim>\<open>getStatus\<close> does not look
  at \<^verbatim>\<open>urls\<close>, it forwards the query to the sync layer. On a fresh client, and after
  \<^verbatim>\<open>removeUrl(db1)\<close>, a sync layer that answers status 0 makes \<^verbatim>\<open>getStatus(db1)\<close> resolve
  with \<^verbatim>\<open>OFFLINE\<close>.
\<close>

theorem getStatus_unknown_endpoint_resolves:
  "urls init = [] \<and> calls init = []
   \<and> results (run dexie_StatusTexts init [GetStatus db1, SyncGetStatusSettled 0 (Inr 0)])
       = [(0, ResolvedText (Some ''OFFLINE''))]
   \<and> results (run dexie_StatusTexts tracked_example
        [RemoveUrl db1, GetStatus db1, SyncGetStatusSettled 2 (Inr 0)])
       = [(0, Resolved), (2, ResolvedText (Some ''OFFLINE''))]"
  by (simp add: example_defs sync_defs dexie_StatusTexts_def)

text \<open>
  Claim C8, amended. For every endpoint, connected before or not, removed or not,
  \<^verbatim>\<open>getStatus(url)\<close> queries the sync layer and passes its answer on: it resolves with
  the translation of the status the sync layer resolves with, and it is rejected
  exactly when the sync layer's query is rejected, with that error. The tracked list
  and the stored options play no part and are not changed.
\<close>

theorem getStatus_passes_sync_layer_answer:
  "(let p = next_promise s; s1 = step T s (GetStatus url) in
      calls s1 = calls s @ [SyncGetStatus url]
    \<and> map_of (pending s1) p = Some (AwaitGetStatus url)
    \<and> urls s1 = urls s \<and> options s1 = options s
    \<and> results (step T s1 (SyncGetStatusSettled p (Inr status)))
        = results s @ [(p, ResolvedText (T status))]
    \<and> results (step T s1 (SyncGetStatusSettled p (Inl e)))
        = results s @ [(p, Rejected e)])"
  by (simp add: sync_defs Let_def)

theorem getStatus_passes_sync_layer_answer_witness:
  "results (run dexie_StatusTexts init [GetStatus db1, SyncGetStatusSettled 0 (Inr 1)])
     = [(0, ResolvedText (Some ''CONNECTING''))]
   \<and> results (run dexie_StatusTexts init
        [GetStatus db1, SyncGetStatusSettled 0 (Inl (Failure ''database closed''))])
     = [(0, Rejected (Failure ''database closed''))]"
  using getStatus_passes_sync_layer_answer
          [of init dexie_StatusTexts db1 1 "Failure ''database closed''"]
  by (simp add: example_defs sync_defs dexie_StatusTexts_def Let_def)

subsection \<open>Membership in the tracked list after a reconnect\<close>

text \<open>
  Claim C2 says that a url is in \<^verbatim>\<open>urls\<close> exactly when a connect for it has completed and
  no disconnect or removal came later, and that a successful reconnect started by the
  oracle restores membership. The code does not restore it. In the trace below the
  endpoint is connected, the oracle reports unreachable (the callback calls
  \<^verbatim>\<open>disconnect\<close>, which removes the url) and then reachable (the callback calls
  \<^verbatim>\<open>_connect\<close>, promise 2, with no continuation); the reconnect resolves, and \<^verbatim>\<open>urls\<close> is
  still empty, while the path of \<^verbatim>\<open>connect\<close> pushes the url at this point (line 93). A
  later \<^verbatim>\<open>connect(db1)\<close> then passes the guard of line 83 and queries the oracle again.
\<close>

theorem tracked_list_not_restored_by_reconnect:
  "urls (run dexie_StatusTexts init
     [Connect db1 None, IsOnlineSettled 0 (Inr True), SyncConnectSettled 0 None]) = [db1]
   \<and> urls (run dexie_StatusTexts init
     [Connect db1 None, IsOnlineSettled 0 (Inr True), SyncConnectSettled 0 None,
      OnlineStatusChanged 0 False, OnlineStatusChanged 0 True]) = []
   \<and> map_of (pending (run dexie_StatusTexts init
     [Connect db1 None, IsOnlineSettled 0 (Inr True), SyncConnectSettled 0 None,
      OnlineStatusChanged 0 False, OnlineStatusChanged 0 True])) 2
       = Some (AwaitConnect db1 False)
   \<and> urls (run dexie_StatusTexts init
     [Connect db1 None, IsOnlineSettled 0 (Inr True), SyncConnectSettled 0 None,
      OnlineStatusChanged 0 False, OnlineStatusChanged 0 True, SyncConnectSettled 2 None])
       = []
   \<and> map_of (pending (run dexie_StatusTexts init
     [Connect db1 None, IsOnlineSettled 0 (Inr True), SyncConnectSettled 0 None,
      OnlineStatusChanged 0 False, OnlineStatusChanged 0 True, SyncConnectSettled 2 None,
      Connect db1 None])) 3
       = Some (AwaitIsOnline db1)"
  by (simp add: example_defs sync_defs)

subsection \<open>Reachability subscriptions\<close>

text \<open>
  Claim C6 says that, whatever the sequence of connects, disconnects and reachability
  changes, at most one reachability subscription is ever created for an endpoint. The
  code creates a second one in the trace below: connect, then \<^verbatim>\<open>disconnect\<close>, then
  connect again. \<^verbatim>\<open>disconnect\<close> removes the url from \<^verbatim>\<open>urls\<close> and leaves the callback
  registered, so the second connect passes the guard of line 83 and, on success, runs
  line 95 again. A later change to reachable then invokes both callbacks, and each
  issues a reconnect.
\<close>

theorem second_connect_subscribes_again:
  "subscriptions (run dexie_StatusTexts init
     [Connect db1 None, IsOnlineSettled 0 (Inr True), SyncConnectSettled 0 None,
      Disconnect db1,
      Connect db1 None, IsOnlineSettled 2 (Inr True), SyncConnectSettled 2 None]) = [db1, db1]
   \<and> \<not> count_list (subscriptions (run dexie_StatusTexts init
     [Connect db1 None, IsOnlineSettled 0 (Inr True), SyncConnectSettled 0 None,
      Disconnect db1,
      Connect db1 None, IsOnlineSettled 2 (Inr True), SyncConnectSettled 2 None])) db1 \<le> 1
   \<and> inflight_connects (run dexie_StatusTexts init
     [Connect db1 None, IsOnlineSettled 0 (Inr True), SyncConnectSettled 0 None,
      Disconnect db1,
      Connect db1 None, IsOnlineSettled 2 (Inr True), SyncConnectSettled 2 None,
      OnlineStatusChanged 0 False, OnlineStatusChanged 1 False,
      OnlineStatusChanged 0 True, OnlineStatusChanged 1 True]) db1
    = [(6, AwaitConnect db1 False), (5, AwaitConnect db1 False)]"
  by (simp add: example_defs sync_defs inflight_connects_def)

subsection \<open>Status events\<close>




end
